theory Spec2Isabelle
  imports Main "HOL-Library.Word" "HOL-Library.Signed_Division"
begin

unbundle bit_operations_syntax

section \<open>The virtual machine of \<^verbatim>\<open>src/vm.hpp\<close>\<close>

text \<open>
  The class \<^verbatim>\<open>VirtualMachine\<close> is embedded as a record and its private member functions
  \<^verbatim>\<open>extract\<close>, \<^verbatim>\<open>fetch\<close> and \<^verbatim>\<open>cycle\<close> as functions on it. The C++ types are read on
  an LP64 platform with a signed \<^verbatim>\<open>char\<close>: \<^verbatim>\<open>unsigned\<close> and \<^verbatim>\<open>int\<close> are 32 bits,
  \<^verbatim>\<open>short\<close> 16 bits, \<^verbatim>\<open>long\<close> and \<^verbatim>\<open>size_t\<close> 64 bits. A value of a signed type is kept as
  its bit pattern and read with \<open>sint\<close>. Conversions between integer types and shifts of
  signed values are the modular ones of C++20. What C++ leaves undefined (signed
  overflow in \<^verbatim>\<open>+\<close> and \<^verbatim>\<open>*\<close>, division by zero, \<^verbatim>\<open>INT_MIN / -1\<close>) is the outcome
  \<open>UndefinedBehaviour\<close>; an exception of \<^verbatim>\<open>at()\<close> and a call of \<^verbatim>\<open>exit(1)\<close> are outcomes
  too. Output to \<^verbatim>\<open>std::cout\<close> is not part of the state.
\<close>

type_synonym u8 = "8 word"
type_synonym u16 = "16 word"
type_synonym u32 = "32 word"
type_synonym u64 = "64 word"

datatype ExtractKind = OP | RS | RT | RD | SHMT | FN | ADDR | IMMD

record VirtualMachine =
  registers :: "u32 list"
  memory :: "u8 list"
  ip :: u32
  hi :: u32
  lo :: u32

text \<open>
  How a cycle can end other than by returning: \<^verbatim>\<open>std::out_of_range\<close> thrown by
  \<^verbatim>\<open>registers.at\<close> or by \<^verbatim>\<open>memory.at\<close> (nothing catches it), \<^verbatim>\<open>exit(1)\<close> in one of the
  two \<^verbatim>\<open>default\<close> branches, or undefined behaviour.
\<close>

datatype halt =
    RegisterOutOfRange
  | MemoryOutOfRange
  | UnknownFunction
  | UnknownOpcode
  | UndefinedBehaviour

type_synonym 'a outcome = "halt + 'a"

definition and_then :: "'a outcome \<Rightarrow> ('a \<Rightarrow> 'b outcome) \<Rightarrow> 'b outcome" where
  "and_then m f = (case m of Inl e \<Rightarrow> Inl e | Inr v \<Rightarrow> f v)"

subsection \<open>Decoder\<close>

fun "extract" :: "u32 \<Rightarrow> ExtractKind \<Rightarrow> u32" where
  "extract v OP = drop_bit 26 (v AND 0xFC000000)"
| "extract v RS = drop_bit 21 (v AND 0x03E00000)"
| "extract v RT = drop_bit 16 (v AND 0x001F0000)"
| "extract v RD = drop_bit 11 (v AND 0x0000F800)"
| "extract v SHMT = drop_bit 6 (v AND 0x000007C0)"
| "extract v FN = v AND 0x0000003F"
| "extract v ADDR = push_bit 2 (v AND 0x03FFFFFF)"
| "extract v IMMD = v AND 0x0000FFFF"

subsection \<open>Checked access to the register array and to memory\<close>

text \<open>\<^verbatim>\<open>registers.at(i)\<close> for an \<^verbatim>\<open>unsigned\<close> index, as a read and as the target of an assignment.\<close>

definition reg_at :: "VirtualMachine \<Rightarrow> u32 \<Rightarrow> u32 outcome" where
  "reg_at s i =
     (if unat i < length (registers s) then Inr (registers s ! unat i)
      else Inl RegisterOutOfRange)"

definition reg_set :: "VirtualMachine \<Rightarrow> u32 \<Rightarrow> u32 \<Rightarrow> VirtualMachine outcome" where
  "reg_set s i v =
     (if unat i < length (registers s)
      then Inr (s\<lparr>registers := (registers s)[unat i := v]\<rparr>)
      else Inl RegisterOutOfRange)"

text \<open>
  \<^verbatim>\<open>memory.at(a)\<close> takes a \<^verbatim>\<open>size_t\<close>. An \<^verbatim>\<open>unsigned\<close> argument is zero-extended to 64
  bits, an \<^verbatim>\<open>int\<close> argument is sign-extended, so that a negative \<^verbatim>\<open>int\<close> becomes an index
  of at least \<open>2 ^ 63\<close>.
\<close>

definition size_t_of_unsigned :: "u32 \<Rightarrow> nat" where
  "size_t_of_unsigned a = unat (ucast a :: u64)"

definition size_t_of_int :: "u32 \<Rightarrow> nat" where
  "size_t_of_int a = unat (scast a :: u64)"

definition mem_at :: "VirtualMachine \<Rightarrow> nat \<Rightarrow> u8 outcome" where
  "mem_at s a =
     (if a < length (memory s) then Inr (memory s ! a) else Inl MemoryOutOfRange)"

definition mem_set :: "VirtualMachine \<Rightarrow> nat \<Rightarrow> u8 \<Rightarrow> VirtualMachine outcome" where
  "mem_set s a v =
     (if a < length (memory s) then Inr (s\<lparr>memory := (memory s)[a := v]\<rparr>)
      else Inl MemoryOutOfRange)"

subsection \<open>Arithmetic of the C++ types\<close>

text \<open>\<^verbatim>\<open>static_cast<short>(x)\<close> of an \<^verbatim>\<open>unsigned\<close>, promoted to \<^verbatim>\<open>int\<close> where it is used.\<close>

definition short_of :: "u32 \<Rightarrow> u32" where
  "short_of x = scast (ucast x :: u16)"

definition int_fits :: "int \<Rightarrow> bool" where
  "int_fits r = (- (2 ^ 31) \<le> r \<and> r < 2 ^ 31)"

text \<open>\<^verbatim>\<open>a + b\<close> and \<^verbatim>\<open>a * b\<close> on \<^verbatim>\<open>int\<close>: undefined when the exact result does not fit.\<close>

definition int_add :: "u32 \<Rightarrow> u32 \<Rightarrow> u32 outcome" where
  "int_add a b = (if int_fits (sint a + sint b) then Inr (a + b) else Inl UndefinedBehaviour)"

definition int_mul :: "u32 \<Rightarrow> u32 \<Rightarrow> u32 outcome" where
  "int_mul a b = (if int_fits (sint a * sint b) then Inr (a * b) else Inl UndefinedBehaviour)"

text \<open>
  \<^verbatim>\<open>a / b\<close> and \<^verbatim>\<open>a % b\<close> on \<^verbatim>\<open>int\<close> truncate towards zero; both are undefined for
  \<^verbatim>\<open>b == 0\<close> and when the quotient does not fit (\<^verbatim>\<open>INT_MIN / -1\<close>).
\<close>

definition int_div :: "u32 \<Rightarrow> u32 \<Rightarrow> u32 outcome" where
  "int_div a b =
     (if b = 0 then Inl UndefinedBehaviour
      else if int_fits (sint a sdiv sint b) then Inr (word_of_int (sint a sdiv sint b))
      else Inl UndefinedBehaviour)"

definition int_rem :: "u32 \<Rightarrow> u32 \<Rightarrow> u32 outcome" where
  "int_rem a b =
     (if b = 0 then Inl UndefinedBehaviour
      else if int_fits (sint a sdiv sint b) then Inr (word_of_int (sint a smod sint b))
      else Inl UndefinedBehaviour)"

text \<open>\<^verbatim>\<open>a / b\<close> and \<^verbatim>\<open>a % b\<close> on \<^verbatim>\<open>unsigned\<close>: undefined for \<^verbatim>\<open>b == 0\<close>.\<close>

definition unsigned_div :: "u32 \<Rightarrow> u32 \<Rightarrow> u32 outcome" where
  "unsigned_div a b = (if b = 0 then Inl UndefinedBehaviour else Inr (a div b))"

definition unsigned_rem :: "u32 \<Rightarrow> u32 \<Rightarrow> u32 outcome" where
  "unsigned_rem a b = (if b = 0 then Inl UndefinedBehaviour else Inr (a mod b))"

subsection \<open>Fetch\<close>

text \<open>
  Four bytes at \<^verbatim>\<open>ip\<close>, big-endian. \<^verbatim>\<open>ip + 1\<close> is \<^verbatim>\<open>unsigned\<close> and wraps.
\<close>

definition fetch :: "VirtualMachine \<Rightarrow> u32 outcome" where
  "fetch s =
     and_then (mem_at s (size_t_of_unsigned (ip s))) (\<lambda>b0.
     and_then (mem_at s (size_t_of_unsigned (ip s + 1))) (\<lambda>b1.
     and_then (mem_at s (size_t_of_unsigned (ip s + 2))) (\<lambda>b2.
     and_then (mem_at s (size_t_of_unsigned (ip s + 3))) (\<lambda>b3.
     Inr (push_bit 24 (ucast b0) OR push_bit 16 (ucast b1) OR push_bit 8 (ucast b2)
          OR ucast b3)))))"

subsection \<open>The instructions\<close>

text \<open>
  One definition for each \<^verbatim>\<open>case\<close> of the two \<^verbatim>\<open>switch\<close> statements of \<^verbatim>\<open>cycle\<close>, in the
  order of the source. \<open>w\<close> is the fetched instruction word. Where the operands of one
  expression could both end the cycle, undefined behaviour comes first: with an
  unspecified order of evaluation it makes the whole expression undefined.
\<close>

text \<open>\<^verbatim>\<open>this->ip += 4\<close>\<close>

definition advance :: "VirtualMachine \<Rightarrow> VirtualMachine" where
  "advance s = s\<lparr>ip := ip s + 4\<rparr>"

text \<open>\<^verbatim>\<open>this->ip += 4 + (static_cast<short>(extract(instruction, IMMD)) << 2)\<close>\<close>

definition branch :: "u32 \<Rightarrow> VirtualMachine \<Rightarrow> VirtualMachine" where
  "branch w s = s\<lparr>ip := ip s + (4 + push_bit 2 (short_of (extract w IMMD)))\<rparr>"

text \<open>
  \<^verbatim>\<open>int address = static_cast<int>(registers.at(rs)) + static_cast<short>(immd)\<close>,
  the address of \<^verbatim>\<open>lb\<close>, \<^verbatim>\<open>lh\<close>, \<^verbatim>\<open>lw\<close>, \<^verbatim>\<open>sb\<close>, \<^verbatim>\<open>sh\<close> and \<^verbatim>\<open>sw\<close>.
\<close>

definition int_address :: "u32 \<Rightarrow> VirtualMachine \<Rightarrow> u32 outcome" where
  "int_address w s =
     and_then (reg_at s (extract w RS)) (\<lambda>rs. int_add rs (short_of (extract w IMMD)))"

text \<open>
  \<^verbatim>\<open>unsigned address = registers.at(rs) + extract(instruction, IMMD)\<close>,
  the address of \<^verbatim>\<open>lbu\<close> and \<^verbatim>\<open>lhu\<close>: the immediate is not cast to \<^verbatim>\<open>short\<close>.
\<close>

definition unsigned_address :: "u32 \<Rightarrow> VirtualMachine \<Rightarrow> u32 outcome" where
  "unsigned_address w s =
     and_then (reg_at s (extract w RS)) (\<lambda>rs. Inr (rs + extract w IMMD))"

definition cycle_j :: "u32 \<Rightarrow> VirtualMachine \<Rightarrow> VirtualMachine outcome" where
  "cycle_j w s = Inr (s\<lparr>ip := (ip s AND 0xF0000000) OR extract w ADDR\<rparr>)"

definition cycle_jal :: "u32 \<Rightarrow> VirtualMachine \<Rightarrow> VirtualMachine outcome" where
  "cycle_jal w s =
     and_then (reg_set s 31 (ip s + 4)) (\<lambda>s1.
     Inr (s1\<lparr>ip := (ip s1 AND 0xF0000000) OR extract w ADDR\<rparr>))"

text \<open>\<^verbatim>\<open>char value\<close>: the byte is sign-extended when it is stored into the register.\<close>

definition cycle_lb :: "u32 \<Rightarrow> VirtualMachine \<Rightarrow> VirtualMachine outcome" where
  "cycle_lb w s =
     and_then (int_address w s) (\<lambda>address.
     and_then (mem_at s (size_t_of_int address)) (\<lambda>b.
     and_then (reg_set s (extract w RT) (scast b)) (\<lambda>s1.
     Inr (advance s1))))"

definition cycle_lbu :: "u32 \<Rightarrow> VirtualMachine \<Rightarrow> VirtualMachine outcome" where
  "cycle_lbu w s =
     and_then (unsigned_address w s) (\<lambda>address.
     and_then (mem_at s (size_t_of_unsigned address)) (\<lambda>b.
     and_then (reg_set s (extract w RT) (ucast b)) (\<lambda>s1.
     Inr (advance s1))))"

definition cycle_lh :: "u32 \<Rightarrow> VirtualMachine \<Rightarrow> VirtualMachine outcome" where
  "cycle_lh w s =
     and_then (int_address w s) (\<lambda>address.
     and_then (int_add address 1) (\<lambda>address1.
     and_then (mem_at s (size_t_of_int address)) (\<lambda>b0.
     and_then (mem_at s (size_t_of_int address1)) (\<lambda>b1.
     and_then (reg_set s (extract w RT) (short_of (push_bit 8 (ucast b0) OR ucast b1))) (\<lambda>s1.
     Inr (advance s1))))))"

text \<open>
  \<^verbatim>\<open>unsigned char value = (memory.at(address) << 8) | memory.at(address + 1)\<close>:
  the halfword is converted to \<^verbatim>\<open>unsigned char\<close> before it reaches the register.
\<close>

definition cycle_lhu :: "u32 \<Rightarrow> VirtualMachine \<Rightarrow> VirtualMachine outcome" where
  "cycle_lhu w s =
     and_then (unsigned_address w s) (\<lambda>address.
     and_then (mem_at s (size_t_of_unsigned address)) (\<lambda>b0.
     and_then (mem_at s (size_t_of_unsigned (address + 1))) (\<lambda>b1.
     let value = (ucast (push_bit 8 (ucast b0 :: u32) OR ucast b1) :: u8) in
     and_then (reg_set s (extract w RT) (ucast value)) (\<lambda>s1.
     Inr (advance s1)))))"

definition cycle_lw :: "u32 \<Rightarrow> VirtualMachine \<Rightarrow> VirtualMachine outcome" where
  "cycle_lw w s =
     and_then (int_address w s) (\<lambda>address.
     and_then (int_add address 1) (\<lambda>address1.
     and_then (int_add address 2) (\<lambda>address2.
     and_then (int_add address 3) (\<lambda>address3.
     and_then (mem_at s (size_t_of_int address)) (\<lambda>b0.
     and_then (mem_at s (size_t_of_int address1)) (\<lambda>b1.
     and_then (mem_at s (size_t_of_int address2)) (\<lambda>b2.
     and_then (mem_at s (size_t_of_int address3)) (\<lambda>b3.
     and_then (reg_set s (extract w RT)
                 (push_bit 24 (ucast b0) OR push_bit 16 (ucast b1) OR push_bit 8 (ucast b2)
                  OR ucast b3)) (\<lambda>s1.
     Inr (advance s1))))))))))"

text \<open>
  \<^verbatim>\<open>unsigned short value = extract(instruction, IMMD) << 16\<close>, stored into the register
  selected by \<^verbatim>\<open>RD\<close>.
\<close>

definition cycle_lui :: "u32 \<Rightarrow> VirtualMachine \<Rightarrow> VirtualMachine outcome" where
  "cycle_lui w s =
     (let value = (ucast (push_bit 16 (extract w IMMD)) :: u16) in
      and_then (reg_set s (extract w RD) (ucast value)) (\<lambda>s1.
      Inr (advance s1)))"

definition cycle_sb :: "u32 \<Rightarrow> VirtualMachine \<Rightarrow> VirtualMachine outcome" where
  "cycle_sb w s =
     and_then (int_address w s) (\<lambda>address.
     and_then (reg_at s (extract w RT)) (\<lambda>v.
     and_then (mem_set s (size_t_of_int address) (ucast v)) (\<lambda>s1.
     Inr (advance s1))))"

definition cycle_sh :: "u32 \<Rightarrow> VirtualMachine \<Rightarrow> VirtualMachine outcome" where
  "cycle_sh w s =
     and_then (int_address w s) (\<lambda>address.
     let rt = extract w RT in
     and_then (reg_at s rt) (\<lambda>v0.
     and_then (mem_set s (size_t_of_int address) (ucast (drop_bit 8 (v0 AND 0xFF00)))) (\<lambda>s1.
     and_then (int_add address 1) (\<lambda>address1.
     and_then (reg_at s1 rt) (\<lambda>v1.
     and_then (mem_set s1 (size_t_of_int address1) (ucast (v1 AND 0x00FF))) (\<lambda>s2.
     Inr (advance s2)))))))"

definition cycle_sw :: "u32 \<Rightarrow> VirtualMachine \<Rightarrow> VirtualMachine outcome" where
  "cycle_sw w s =
     and_then (int_address w s) (\<lambda>address.
     let rt = extract w RT in
     and_then (reg_at s rt) (\<lambda>v0.
     and_then (mem_set s (size_t_of_int address) (ucast (drop_bit 24 (v0 AND 0xFF000000)))) (\<lambda>s1.
     and_then (int_add address 1) (\<lambda>address1.
     and_then (reg_at s1 rt) (\<lambda>v1.
     and_then (mem_set s1 (size_t_of_int address1) (ucast (drop_bit 16 (v1 AND 0x00FF0000)))) (\<lambda>s2.
     and_then (int_add address 2) (\<lambda>address2.
     and_then (reg_at s2 rt) (\<lambda>v2.
     and_then (mem_set s2 (size_t_of_int address2) (ucast (drop_bit 8 (v2 AND 0x0000FF00)))) (\<lambda>s3.
     and_then (int_add address 3) (\<lambda>address3.
     and_then (reg_at s3 rt) (\<lambda>v3.
     and_then (mem_set s3 (size_t_of_int address3) (ucast (v3 AND 0x000000FF))) (\<lambda>s4.
     Inr (advance s4)))))))))))))"

text \<open>\<^verbatim>\<open>case 0x08: { break; }\<close>\<close>

definition cycle_addi :: "u32 \<Rightarrow> VirtualMachine \<Rightarrow> VirtualMachine outcome" where
  "cycle_addi w s = Inr s"

text \<open>The \<^verbatim>\<open>int\<close> operand is converted to \<^verbatim>\<open>unsigned\<close> for the sum, which wraps.\<close>

definition cycle_addiu :: "u32 \<Rightarrow> VirtualMachine \<Rightarrow> VirtualMachine outcome" where
  "cycle_addiu w s =
     and_then (reg_at s (extract w RS)) (\<lambda>rs.
     let sum = short_of (extract w IMMD) + rs in
     and_then (reg_set s (extract w RT) sum) (\<lambda>s1.
     Inr (advance s1)))"

definition cycle_blez :: "u32 \<Rightarrow> VirtualMachine \<Rightarrow> VirtualMachine outcome" where
  "cycle_blez w s =
     and_then (reg_at s (extract w RS)) (\<lambda>rs.
     if sint rs \<le> 0 then Inr (branch w s) else Inr (advance s))"

text \<open>\<^verbatim>\<open>unsigned rs\<close>; \<^verbatim>\<open>if (rs > 0)\<close> is an unsigned comparison.\<close>

definition cycle_bgtz :: "u32 \<Rightarrow> VirtualMachine \<Rightarrow> VirtualMachine outcome" where
  "cycle_bgtz w s =
     and_then (reg_at s (extract w RS)) (\<lambda>rs.
     if rs > 0 then Inr (branch w s) else Inr (advance s))"

definition cycle_beq :: "u32 \<Rightarrow> VirtualMachine \<Rightarrow> VirtualMachine outcome" where
  "cycle_beq w s =
     and_then (reg_at s (extract w RS)) (\<lambda>rs.
     and_then (reg_at s (extract w RT)) (\<lambda>rt.
     if rs = rt then Inr (branch w s) else Inr (advance s)))"

definition cycle_bne :: "u32 \<Rightarrow> VirtualMachine \<Rightarrow> VirtualMachine outcome" where
  "cycle_bne w s =
     and_then (reg_at s (extract w RS)) (\<lambda>rs.
     and_then (reg_at s (extract w RT)) (\<lambda>rt.
     if rs \<noteq> rt then Inr (branch w s) else Inr (advance s)))"

text \<open>\<^verbatim>\<open>rs ^ immd\<close> with \<^verbatim>\<open>short immd\<close>: the immediate is sign-extended.\<close>

definition cycle_xori :: "u32 \<Rightarrow> VirtualMachine \<Rightarrow> VirtualMachine outcome" where
  "cycle_xori w s =
     and_then (reg_at s (extract w RS)) (\<lambda>rs.
     let immd = short_of (extract w IMMD) in
     and_then (reg_set s (extract w RT) (rs XOR immd)) (\<lambda>s1.
     Inr (advance s1)))"

text \<open>The instructions with \<^verbatim>\<open>op = 0\<close>, selected by the function field.\<close>

definition cycle_sll :: "u32 \<Rightarrow> VirtualMachine \<Rightarrow> VirtualMachine outcome" where
  "cycle_sll w s =
     and_then (reg_at s (extract w RT)) (\<lambda>rt.
     let shmt = extract w SHMT in
     and_then (reg_set s (extract w RD) (push_bit (unat shmt) rt)) (\<lambda>s1.
     Inr (advance s1)))"

definition cycle_srl :: "u32 \<Rightarrow> VirtualMachine \<Rightarrow> VirtualMachine outcome" where
  "cycle_srl w s =
     and_then (reg_at s (extract w RT)) (\<lambda>rt.
     let shmt = extract w SHMT in
     and_then (reg_set s (extract w RD) (drop_bit (unat shmt) rt)) (\<lambda>s1.
     Inr (advance s1)))"

definition cycle_sltu :: "u32 \<Rightarrow> VirtualMachine \<Rightarrow> VirtualMachine outcome" where
  "cycle_sltu w s =
     and_then (reg_at s (extract w RS)) (\<lambda>rs.
     and_then (reg_at s (extract w RT)) (\<lambda>rt.
     and_then (reg_set s (extract w RD) (if rs < rt then 1 else 0)) (\<lambda>s1.
     Inr (advance s1))))"

definition cycle_slt :: "u32 \<Rightarrow> VirtualMachine \<Rightarrow> VirtualMachine outcome" where
  "cycle_slt w s =
     and_then (reg_at s (extract w RS)) (\<lambda>rs.
     and_then (reg_at s (extract w RT)) (\<lambda>rt.
     and_then (reg_set s (extract w RD) (if sint rs < sint rt then 1 else 0)) (\<lambda>s1.
     Inr (advance s1))))"

definition cycle_addu :: "u32 \<Rightarrow> VirtualMachine \<Rightarrow> VirtualMachine outcome" where
  "cycle_addu w s =
     and_then (reg_at s (extract w RS)) (\<lambda>rs.
     and_then (reg_at s (extract w RT)) (\<lambda>rt.
     let sum = rs + rt in
     and_then (reg_set s (extract w RD) sum) (\<lambda>s1.
     Inr (advance s1))))"

definition cycle_add :: "u32 \<Rightarrow> VirtualMachine \<Rightarrow> VirtualMachine outcome" where
  "cycle_add w s =
     and_then (reg_at s (extract w RS)) (\<lambda>rs.
     and_then (reg_at s (extract w RT)) (\<lambda>rt.
     and_then (int_add rs rt) (\<lambda>sum.
     and_then (reg_set s (extract w RD) sum) (\<lambda>s1.
     Inr (advance s1)))))"

text \<open>
  \<^verbatim>\<open>unsigned long result = rs * rt\<close>: the product is taken in \<^verbatim>\<open>unsigned\<close>, 32 bits, and
  the 32-bit value is then zero-extended to \<^verbatim>\<open>unsigned long\<close>.
\<close>

definition cycle_multu :: "u32 \<Rightarrow> VirtualMachine \<Rightarrow> VirtualMachine outcome" where
  "cycle_multu w s =
     and_then (reg_at s (extract w RS)) (\<lambda>rs.
     and_then (reg_at s (extract w RT)) (\<lambda>rt.
     let result = (ucast (rs * rt) :: u64) in
     Inr (advance (s\<lparr>hi := ucast (drop_bit 32 (result AND 0xFFFFFFFF00000000)),
                      lo := ucast (result AND 0x00000000FFFFFFFF)\<rparr>))))"

text \<open>
  \<^verbatim>\<open>long result = rs * rt\<close>: the product is taken in \<^verbatim>\<open>int\<close>, 32 bits, and the 32-bit
  value is then sign-extended to \<^verbatim>\<open>long\<close>.
\<close>

definition cycle_mult :: "u32 \<Rightarrow> VirtualMachine \<Rightarrow> VirtualMachine outcome" where
  "cycle_mult w s =
     and_then (reg_at s (extract w RS)) (\<lambda>rs.
     and_then (reg_at s (extract w RT)) (\<lambda>rt.
     and_then (int_mul rs rt) (\<lambda>product.
     let result = (scast product :: u64) in
     Inr (advance (s\<lparr>hi := ucast (drop_bit 32 (result AND 0xFFFFFFFF00000000)),
                      lo := ucast (result AND 0x00000000FFFFFFFF)\<rparr>)))))"

definition cycle_divu :: "u32 \<Rightarrow> VirtualMachine \<Rightarrow> VirtualMachine outcome" where
  "cycle_divu w s =
     and_then (reg_at s (extract w RS)) (\<lambda>rs.
     and_then (reg_at s (extract w RT)) (\<lambda>rt.
     and_then (unsigned_rem rs rt) (\<lambda>r.
     and_then (unsigned_div rs rt) (\<lambda>q.
     Inr (advance (s\<lparr>hi := r, lo := q\<rparr>))))))"

definition cycle_div :: "u32 \<Rightarrow> VirtualMachine \<Rightarrow> VirtualMachine outcome" where
  "cycle_div w s =
     and_then (reg_at s (extract w RS)) (\<lambda>rs.
     and_then (reg_at s (extract w RT)) (\<lambda>rt.
     and_then (int_rem rs rt) (\<lambda>r.
     and_then (int_div rs rt) (\<lambda>q.
     Inr (advance (s\<lparr>hi := r, lo := q\<rparr>))))))"

definition cycle_jr :: "u32 \<Rightarrow> VirtualMachine \<Rightarrow> VirtualMachine outcome" where
  "cycle_jr w s =
     and_then (reg_at s (extract w RS)) (\<lambda>rs. Inr (s\<lparr>ip := rs\<rparr>))"

definition cycle_jalr :: "u32 \<Rightarrow> VirtualMachine \<Rightarrow> VirtualMachine outcome" where
  "cycle_jalr w s =
     and_then (reg_set s (extract w RD) (ip s + 4)) (\<lambda>s1.
     and_then (reg_at s1 (extract w RS)) (\<lambda>rs. Inr (s1\<lparr>ip := rs\<rparr>)))"

definition cycle_and :: "u32 \<Rightarrow> VirtualMachine \<Rightarrow> VirtualMachine outcome" where
  "cycle_and w s =
     and_then (reg_at s (extract w RS)) (\<lambda>rs.
     and_then (reg_at s (extract w RT)) (\<lambda>rt.
     and_then (reg_set s (extract w RD) (rs AND rt)) (\<lambda>s1.
     Inr (advance s1))))"

definition cycle_or :: "u32 \<Rightarrow> VirtualMachine \<Rightarrow> VirtualMachine outcome" where
  "cycle_or w s =
     and_then (reg_at s (extract w RS)) (\<lambda>rs.
     and_then (reg_at s (extract w RT)) (\<lambda>rt.
     and_then (reg_set s (extract w RD) (rs OR rt)) (\<lambda>s1.
     Inr (advance s1))))"

definition cycle_nor :: "u32 \<Rightarrow> VirtualMachine \<Rightarrow> VirtualMachine outcome" where
  "cycle_nor w s =
     and_then (reg_at s (extract w RS)) (\<lambda>rs.
     and_then (reg_at s (extract w RT)) (\<lambda>rt.
     and_then (reg_set s (extract w RD) (NOT (rs OR rt))) (\<lambda>s1.
     Inr (advance s1))))"

definition cycle_xor :: "u32 \<Rightarrow> VirtualMachine \<Rightarrow> VirtualMachine outcome" where
  "cycle_xor w s =
     and_then (reg_at s (extract w RS)) (\<lambda>rs.
     and_then (reg_at s (extract w RT)) (\<lambda>rt.
     and_then (reg_set s (extract w RD) (rs XOR rt)) (\<lambda>s1.
     Inr (advance s1))))"

definition cycle_mtlo :: "u32 \<Rightarrow> VirtualMachine \<Rightarrow> VirtualMachine outcome" where
  "cycle_mtlo w s =
     and_then (reg_at s (extract w RS)) (\<lambda>rs. Inr (advance (s\<lparr>lo := rs\<rparr>)))"

definition cycle_mthi :: "u32 \<Rightarrow> VirtualMachine \<Rightarrow> VirtualMachine outcome" where
  "cycle_mthi w s =
     and_then (reg_at s (extract w RS)) (\<lambda>rs. Inr (advance (s\<lparr>hi := rs\<rparr>)))"

definition cycle_mfhi :: "u32 \<Rightarrow> VirtualMachine \<Rightarrow> VirtualMachine outcome" where
  "cycle_mfhi w s =
     and_then (reg_set s (extract w RD) (hi s)) (\<lambda>s1. Inr (advance s1))"

definition cycle_mflo :: "u32 \<Rightarrow> VirtualMachine \<Rightarrow> VirtualMachine outcome" where
  "cycle_mflo w s =
     and_then (reg_set s (extract w RD) (lo s)) (\<lambda>s1. Inr (advance s1))"

definition cycle_syscall :: "u32 \<Rightarrow> VirtualMachine \<Rightarrow> VirtualMachine outcome" where
  "cycle_syscall w s = Inr (advance s)"

subsection \<open>Dispatch\<close>

text \<open>The inner \<^verbatim>\<open>switch (extract(instruction, FN))\<close>; its \<^verbatim>\<open>default\<close> calls \<^verbatim>\<open>exit(1)\<close>.\<close>

definition cycle_function :: "u32 \<Rightarrow> VirtualMachine \<Rightarrow> VirtualMachine outcome" where
  "cycle_function w s =
     (let fn = extract w FN in
      if fn = 0x00 then cycle_sll w s
      else if fn = 0x02 then cycle_srl w s
      else if fn = 0x29 then cycle_sltu w s
      else if fn = 0x2A then cycle_slt w s
      else if fn = 0x21 then cycle_addu w s
      else if fn = 0x20 then cycle_add w s
      else if fn = 0x19 then cycle_multu w s
      else if fn = 0x18 then cycle_mult w s
      else if fn = 0x1B then cycle_divu w s
      else if fn = 0x1A then cycle_div w s
      else if fn = 0x08 then cycle_jr w s
      else if fn = 0x09 then cycle_jalr w s
      else if fn = 0x24 then cycle_and w s
      else if fn = 0x25 then cycle_or w s
      else if fn = 0x27 then cycle_nor w s
      else if fn = 0x26 then cycle_xor w s
      else if fn = 0x13 then cycle_mtlo w s
      else if fn = 0x11 then cycle_mthi w s
      else if fn = 0x10 then cycle_mfhi w s
      else if fn = 0x12 then cycle_mflo w s
      else if fn = 0x0C then cycle_syscall w s
      else Inl UnknownFunction)"

text \<open>The outer \<^verbatim>\<open>switch (extract(instruction, OP))\<close>; its \<^verbatim>\<open>default\<close> calls \<^verbatim>\<open>exit(1)\<close>.\<close>

definition dispatch :: "u32 \<Rightarrow> VirtualMachine \<Rightarrow> VirtualMachine outcome" where
  "dispatch w s =
     (let op = extract w OP in
      if op = 0x02 then cycle_j w s
      else if op = 0x03 then cycle_jal w s
      else if op = 0x20 then cycle_lb w s
      else if op = 0x24 then cycle_lbu w s
      else if op = 0x21 then cycle_lh w s
      else if op = 0x25 then cycle_lhu w s
      else if op = 0x23 then cycle_lw w s
      else if op = 0x0F then cycle_lui w s
      else if op = 0x28 then cycle_sb w s
      else if op = 0x29 then cycle_sh w s
      else if op = 0x2B then cycle_sw w s
      else if op = 0x08 then cycle_addi w s
      else if op = 0x09 then cycle_addiu w s
      else if op = 0x06 then cycle_blez w s
      else if op = 0x07 then cycle_bgtz w s
      else if op = 0x04 then cycle_beq w s
      else if op = 0x05 then cycle_bne w s
      else if op = 0x0E then cycle_xori w s
      else if op = 0x0 then cycle_function w s
      else Inl UnknownOpcode)"

text \<open>\<^verbatim>\<open>cycle\<close>: fetch the instruction at \<^verbatim>\<open>ip\<close>, then switch on it.\<close>

definition cycle :: "VirtualMachine \<Rightarrow> VirtualMachine outcome" where
  "cycle s = and_then (fetch s) (\<lambda>instruction. dispatch instruction s)"

text \<open>The constructor: registers, \<^verbatim>\<open>hi\<close> and \<^verbatim>\<open>lo\<close> zeroed, no memory yet.\<close>

definition VirtualMachine_new :: "u32 \<Rightarrow> VirtualMachine" where
  "VirtualMachine_new entry =
     \<lparr>registers = replicate 32 0, memory = [], ip = entry, hi = 0, lo = 0\<rparr>"

section \<open>Concrete machines\<close>

text \<open>
  Each machine holds one instruction in memory at its \<open>ip\<close> and the register values the
  instruction reads; all other registers are zero, as the constructor leaves them.
\<close>

text \<open>\<^verbatim>\<open>multu $1, $2\<close> (\<open>0x00220019\<close>) with both registers \<open>0xFFFFFFFF\<close>.\<close>

definition multu_state :: VirtualMachine where
  "multu_state =
     \<lparr>registers = (replicate 32 0)[1 := 0xFFFFFFFF, 2 := 0xFFFFFFFF],
      memory = [0x00, 0x22, 0x00, 0x19], ip = 0, hi = 0, lo = 0\<rparr>"

text \<open>\<^verbatim>\<open>addi $8, $0, 5\<close> (\<open>0x20080005\<close>).\<close>

definition addi_state :: VirtualMachine where
  "addi_state =
     \<lparr>registers = replicate 32 0, memory = [0x20, 0x08, 0x00, 0x05], ip = 0, hi = 0, lo = 0\<rparr>"

text \<open>
  \<^verbatim>\<open>lui $8, 0x1234\<close> (\<open>0x3C081234\<close>); bits 15 to 11 of the word are 2, and register 2
  holds \<open>0xAAAAAAAA\<close>.
\<close>

definition lui_state :: VirtualMachine where
  "lui_state =
     \<lparr>registers = (replicate 32 0)[2 := 0xAAAAAAAA],
      memory = [0x3C, 0x08, 0x12, 0x34], ip = 0, hi = 0, lo = 0\<rparr>"

text \<open>\<^verbatim>\<open>lbu $8, -1($1)\<close> (\<open>0x9028FFFF\<close>) with register 1 holding 1.\<close>

definition lbu_state :: VirtualMachine where
  "lbu_state =
     \<lparr>registers = (replicate 32 0)[1 := 1],
      memory = [0x90, 0x28, 0xFF, 0xFF], ip = 0, hi = 0, lo = 0\<rparr>"

text \<open>\<^verbatim>\<open>lhu $8, 4($0)\<close> (\<open>0x94080004\<close>), followed by the bytes \<open>0x12 0x34\<close> at address 4.\<close>

definition lhu_state :: VirtualMachine where
  "lhu_state =
     \<lparr>registers = replicate 32 0,
      memory = [0x94, 0x08, 0x00, 0x04, 0x12, 0x34], ip = 0, hi = 0, lo = 0\<rparr>"

text \<open>\<^verbatim>\<open>bgtz $1, 2\<close> (\<open>0x1C200002\<close>) with register 1 holding \<open>0x80000000\<close>, that is \<open>- 2 ^ 31\<close>.\<close>

definition bgtz_state :: VirtualMachine where
  "bgtz_state =
     \<lparr>registers = (replicate 32 0)[1 := 0x80000000],
      memory = [0x1C, 0x20, 0x00, 0x02], ip = 0, hi = 0, lo = 0\<rparr>"

text \<open>\<^verbatim>\<open>addiu $0, $0, 5\<close> (\<open>0x24000005\<close>).\<close>

definition addiu_state :: VirtualMachine where
  "addiu_state =
     \<lparr>registers = replicate 32 0, memory = [0x24, 0x00, 0x00, 0x05], ip = 0, hi = 0, lo = 0\<rparr>"

text \<open>\<^verbatim>\<open>div $1, $2\<close> (\<open>0x0022001A\<close>) and \<^verbatim>\<open>divu $1, $2\<close> (\<open>0x0022001B\<close>) with register 2 zero.\<close>

definition div_state :: VirtualMachine where
  "div_state =
     \<lparr>registers = (replicate 32 0)[1 := 7],
      memory = [0x00, 0x22, 0x00, 0x1A], ip = 0, hi = 0, lo = 0\<rparr>"

definition divu_state :: VirtualMachine where
  "divu_state =
     \<lparr>registers = (replicate 32 0)[1 := 7],
      memory = [0x00, 0x22, 0x00, 0x1B], ip = 0, hi = 0, lo = 0\<rparr>"

text \<open>
  \<^verbatim>\<open>j\<close> (\<open>0x08000010\<close>) and \<^verbatim>\<open>jal\<close> (\<open>0x0C000010\<close>) with the 26-bit target \<open>0x10\<close>, at
  address 4.
\<close>

definition j_state :: VirtualMachine where
  "j_state =
     \<lparr>registers = replicate 32 0,
      memory = [0, 0, 0, 0, 0x08, 0x00, 0x00, 0x10], ip = 4, hi = 0, lo = 0\<rparr>"

definition jal_state :: VirtualMachine where
  "jal_state =
     \<lparr>registers = replicate 32 0,
      memory = [0, 0, 0, 0, 0x0C, 0x00, 0x00, 0x10], ip = 4, hi = 0, lo = 0\<rparr>"

text \<open>\<^verbatim>\<open>jalr\<close> with all three register fields 31 (\<open>0x03FFF809\<close>).\<close>

definition jalr_state :: VirtualMachine where
  "jalr_state =
     \<lparr>registers = (replicate 32 0)[31 := 0x40],
      memory = [0x03, 0xFF, 0xF8, 0x09], ip = 0, hi = 0, lo = 0\<rparr>"

section \<open>Properties of the decoder and of register access\<close>

lemmas extract_eqs = "extract.simps"

lemma unat_and_le: "unat (v AND m) \<le> unat (m :: u32)"
  by (rule word_and_le1 [THEN word_le_nat_alt [THEN iffD1]])

lemma unat_extract_RS: "unat (extract w RS) < 32"
  using unat_and_le [of "drop_bit 21 w" 31] by simp

lemma unat_extract_RT: "unat (extract w RT) < 32"
  using unat_and_le [of "drop_bit 16 w" 31] by simp

lemma unat_extract_RD: "unat (extract w RD) < 32"
  using unat_and_le [of "drop_bit 11 w" 31] by simp

lemma unat_extract_SHMT: "unat (extract w SHMT) < 32"
  using unat_and_le [of "drop_bit 6 w" 31] by simp

declare "extract.simps" [simp del]



lemma and_then_Inr [simp]: "and_then (Inr v) f = f v"
  by (simp add: and_then_def)

lemma and_then_Inl [simp]: "and_then (Inl e) f = Inl e"
  by (simp add: and_then_def)

lemma and_then_avoids:
  "m \<noteq> Inl e \<Longrightarrow> (\<And>v. m = Inr v \<Longrightarrow> f v \<noteq> Inl e) \<Longrightarrow> and_then m f \<noteq> Inl e"
  by (cases m) simp_all

lemma reg_at_RS: "length (registers s) = 32 \<Longrightarrow> reg_at s (extract w RS) = Inr (registers s ! unat (extract w RS))"
  using unat_extract_RS [of w] by (simp add: reg_at_def)

lemma reg_at_RT: "length (registers s) = 32 \<Longrightarrow> reg_at s (extract w RT) = Inr (registers s ! unat (extract w RT))"
  using unat_extract_RT [of w] by (simp add: reg_at_def)

lemma reg_set_RT: "length (registers s) = 32 \<Longrightarrow>
   reg_set s (extract w RT) v = Inr (s\<lparr>registers := (registers s)[unat (extract w RT) := v]\<rparr>)"
  using unat_extract_RT [of w] by (simp add: reg_set_def)

lemma reg_set_RD: "length (registers s) = 32 \<Longrightarrow>
   reg_set s (extract w RD) v = Inr (s\<lparr>registers := (registers s)[unat (extract w RD) := v]\<rparr>)"
  using unat_extract_RD [of w] by (simp add: reg_set_def)

lemma reg_set_31: "length (registers s) = 32 \<Longrightarrow>
   reg_set s 31 v = Inr (s\<lparr>registers := (registers s)[31 := v]\<rparr>)"
  by (simp add: reg_set_def)

lemmas reg_ok = reg_at_RS reg_at_RT reg_set_RT reg_set_RD reg_set_31

lemma mem_at_avoids [simp]: "mem_at s a \<noteq> Inl RegisterOutOfRange"
  by (simp add: mem_at_def)

lemma mem_set_avoids [simp]: "mem_set s a v \<noteq> Inl RegisterOutOfRange"
  by (simp add: mem_set_def)

lemma mem_set_registers: "mem_set s a v = Inr s1 \<Longrightarrow> registers s1 = registers s"
  by (auto simp: mem_set_def split: if_splits)

lemma int_add_avoids [simp]: "int_add a b \<noteq> Inl RegisterOutOfRange"
  by (simp add: int_add_def)

lemma int_mul_avoids [simp]: "int_mul a b \<noteq> Inl RegisterOutOfRange"
  by (simp add: int_mul_def)

lemma int_div_avoids [simp]: "int_div a b \<noteq> Inl RegisterOutOfRange"
  by (simp add: int_div_def)

lemma int_rem_avoids [simp]: "int_rem a b \<noteq> Inl RegisterOutOfRange"
  by (simp add: int_rem_def)

lemma unsigned_div_avoids [simp]: "unsigned_div a b \<noteq> Inl RegisterOutOfRange"
  by (simp add: unsigned_div_def)

lemma unsigned_rem_avoids [simp]: "unsigned_rem a b \<noteq> Inl RegisterOutOfRange"
  by (simp add: unsigned_rem_def)

lemma int_address_avoids: "length (registers s) = 32 \<Longrightarrow> int_address w s \<noteq> Inl RegisterOutOfRange"
  by (simp add: int_address_def reg_ok)

lemma unsigned_address_avoids: "length (registers s) = 32 \<Longrightarrow> unsigned_address w s \<noteq> Inl RegisterOutOfRange"
  by (simp add: unsigned_address_def reg_ok)


lemma reg_at_RS_later:
  "length (registers s) = 32 \<Longrightarrow> reg_at (s\<lparr>registers := (registers s)[i := v]\<rparr>) (extract w RS) \<noteq> Inl RegisterOutOfRange"
  using unat_extract_RS [of w] by (simp add: reg_at_def)

lemma cycle_j_avoids: "cycle_j w s \<noteq> Inl RegisterOutOfRange"
  by (simp add: cycle_j_def)

lemma cycle_jal_avoids: "length (registers s) = 32 \<Longrightarrow> cycle_jal w s \<noteq> Inl RegisterOutOfRange"
  by (simp add: cycle_jal_def reg_ok)

lemma cycle_addi_avoids: "cycle_addi w s \<noteq> Inl RegisterOutOfRange"
  by (simp add: cycle_addi_def)

lemma cycle_syscall_avoids: "cycle_syscall w s \<noteq> Inl RegisterOutOfRange"
  by (simp add: cycle_syscall_def)

lemma cycle_lb_avoids: "length (registers s) = 32 \<Longrightarrow> cycle_lb w s \<noteq> Inl RegisterOutOfRange"
  unfolding cycle_lb_def Let_def
  by (intro and_then_avoids)
     (simp_all add: int_address_avoids unsigned_address_avoids reg_ok reg_at_RS_later mem_set_registers
       )

lemma cycle_lbu_avoids: "length (registers s) = 32 \<Longrightarrow> cycle_lbu w s \<noteq> Inl RegisterOutOfRange"
  unfolding cycle_lbu_def Let_def
  by (intro and_then_avoids)
     (simp_all add: int_address_avoids unsigned_address_avoids reg_ok reg_at_RS_later mem_set_registers
       )

lemma cycle_lh_avoids: "length (registers s) = 32 \<Longrightarrow> cycle_lh w s \<noteq> Inl RegisterOutOfRange"
  unfolding cycle_lh_def Let_def
  by (intro and_then_avoids)
     (simp_all add: int_address_avoids unsigned_address_avoids reg_ok reg_at_RS_later mem_set_registers
       )

lemma cycle_lhu_avoids: "length (registers s) = 32 \<Longrightarrow> cycle_lhu w s \<noteq> Inl RegisterOutOfRange"
  unfolding cycle_lhu_def Let_def
  by (intro and_then_avoids)
     (simp_all add: int_address_avoids unsigned_address_avoids reg_ok reg_at_RS_later mem_set_registers
       )

lemma cycle_lw_avoids: "length (registers s) = 32 \<Longrightarrow> cycle_lw w s \<noteq> Inl RegisterOutOfRange"
  unfolding cycle_lw_def Let_def
  by (intro and_then_avoids)
     (simp_all add: int_address_avoids unsigned_address_avoids reg_ok reg_at_RS_later mem_set_registers
       )

lemma cycle_lui_avoids: "length (registers s) = 32 \<Longrightarrow> cycle_lui w s \<noteq> Inl RegisterOutOfRange"
  unfolding cycle_lui_def Let_def
  by (intro and_then_avoids)
     (simp_all add: int_address_avoids unsigned_address_avoids reg_ok reg_at_RS_later mem_set_registers
       )

lemma cycle_sb_avoids: "length (registers s) = 32 \<Longrightarrow> cycle_sb w s \<noteq> Inl RegisterOutOfRange"
  unfolding cycle_sb_def Let_def
  by (intro and_then_avoids)
     (simp_all add: int_address_avoids unsigned_address_avoids reg_ok reg_at_RS_later mem_set_registers
       )

lemma cycle_sh_avoids: "length (registers s) = 32 \<Longrightarrow> cycle_sh w s \<noteq> Inl RegisterOutOfRange"
  unfolding cycle_sh_def Let_def
  by (intro and_then_avoids)
     (simp_all add: int_address_avoids unsigned_address_avoids reg_ok reg_at_RS_later mem_set_registers
       )

lemma cycle_sw_avoids: "length (registers s) = 32 \<Longrightarrow> cycle_sw w s \<noteq> Inl RegisterOutOfRange"
  unfolding cycle_sw_def Let_def
  by (intro and_then_avoids)
     (simp_all add: int_address_avoids unsigned_address_avoids reg_ok reg_at_RS_later mem_set_registers
       )

lemma cycle_addiu_avoids: "length (registers s) = 32 \<Longrightarrow> cycle_addiu w s \<noteq> Inl RegisterOutOfRange"
  unfolding cycle_addiu_def Let_def
  by (intro and_then_avoids)
     (simp_all add: int_address_avoids unsigned_address_avoids reg_ok reg_at_RS_later mem_set_registers
       )

lemma cycle_blez_avoids: "length (registers s) = 32 \<Longrightarrow> cycle_blez w s \<noteq> Inl RegisterOutOfRange"
  unfolding cycle_blez_def Let_def
  by (intro and_then_avoids)
     (simp_all add: int_address_avoids unsigned_address_avoids reg_ok reg_at_RS_later mem_set_registers
       )

lemma cycle_bgtz_avoids: "length (registers s) = 32 \<Longrightarrow> cycle_bgtz w s \<noteq> Inl RegisterOutOfRange"
  unfolding cycle_bgtz_def Let_def
  by (intro and_then_avoids)
     (simp_all add: int_address_avoids unsigned_address_avoids reg_ok reg_at_RS_later mem_set_registers
       )

lemma cycle_beq_avoids: "length (registers s) = 32 \<Longrightarrow> cycle_beq w s \<noteq> Inl RegisterOutOfRange"
  unfolding cycle_beq_def Let_def
  by (intro and_then_avoids)
     (simp_all add: int_address_avoids unsigned_address_avoids reg_ok reg_at_RS_later mem_set_registers
       )

lemma cycle_bne_avoids: "length (registers s) = 32 \<Longrightarrow> cycle_bne w s \<noteq> Inl RegisterOutOfRange"
  unfolding cycle_bne_def Let_def
  by (intro and_then_avoids)
     (simp_all add: int_address_avoids unsigned_address_avoids reg_ok reg_at_RS_later mem_set_registers
       )

lemma cycle_xori_avoids: "length (registers s) = 32 \<Longrightarrow> cycle_xori w s \<noteq> Inl RegisterOutOfRange"
  unfolding cycle_xori_def Let_def
  by (intro and_then_avoids)
     (simp_all add: int_address_avoids unsigned_address_avoids reg_ok reg_at_RS_later mem_set_registers
       )

lemma cycle_sll_avoids: "length (registers s) = 32 \<Longrightarrow> cycle_sll w s \<noteq> Inl RegisterOutOfRange"
  unfolding cycle_sll_def Let_def
  by (intro and_then_avoids)
     (simp_all add: int_address_avoids unsigned_address_avoids reg_ok reg_at_RS_later mem_set_registers
       )

lemma cycle_srl_avoids: "length (registers s) = 32 \<Longrightarrow> cycle_srl w s \<noteq> Inl RegisterOutOfRange"
  unfolding cycle_srl_def Let_def
  by (intro and_then_avoids)
     (simp_all add: int_address_avoids unsigned_address_avoids reg_ok reg_at_RS_later mem_set_registers
       )

lemma cycle_sltu_avoids: "length (registers s) = 32 \<Longrightarrow> cycle_sltu w s \<noteq> Inl RegisterOutOfRange"
  unfolding cycle_sltu_def Let_def
  by (intro and_then_avoids)
     (simp_all add: int_address_avoids unsigned_address_avoids reg_ok reg_at_RS_later mem_set_registers
       )

lemma cycle_slt_avoids: "length (registers s) = 32 \<Longrightarrow> cycle_slt w s \<noteq> Inl RegisterOutOfRange"
  unfolding cycle_slt_def Let_def
  by (intro and_then_avoids)
     (simp_all add: int_address_avoids unsigned_address_avoids reg_ok reg_at_RS_later mem_set_registers
       )

lemma cycle_addu_avoids: "length (registers s) = 32 \<Longrightarrow> cycle_addu w s \<noteq> Inl RegisterOutOfRange"
  unfolding cycle_addu_def Let_def
  by (intro and_then_avoids)
     (simp_all add: int_address_avoids unsigned_address_avoids reg_ok reg_at_RS_later mem_set_registers
       )

lemma cycle_add_avoids: "length (registers s) = 32 \<Longrightarrow> cycle_add w s \<noteq> Inl RegisterOutOfRange"
  unfolding cycle_add_def Let_def
  by (intro and_then_avoids)
     (simp_all add: int_address_avoids unsigned_address_avoids reg_ok reg_at_RS_later mem_set_registers
       )

lemma cycle_multu_avoids: "length (registers s) = 32 \<Longrightarrow> cycle_multu w s \<noteq> Inl RegisterOutOfRange"
  unfolding cycle_multu_def Let_def
  by (intro and_then_avoids)
     (simp_all add: int_address_avoids unsigned_address_avoids reg_ok reg_at_RS_later mem_set_registers
       )

lemma cycle_mult_avoids: "length (registers s) = 32 \<Longrightarrow> cycle_mult w s \<noteq> Inl RegisterOutOfRange"
  unfolding cycle_mult_def Let_def
  by (intro and_then_avoids)
     (simp_all add: int_address_avoids unsigned_address_avoids reg_ok reg_at_RS_later mem_set_registers
       )

lemma cycle_divu_avoids: "length (registers s) = 32 \<Longrightarrow> cycle_divu w s \<noteq> Inl RegisterOutOfRange"
  unfolding cycle_divu_def Let_def
  by (intro and_then_avoids)
     (simp_all add: int_address_avoids unsigned_address_avoids reg_ok reg_at_RS_later mem_set_registers
       )

lemma cycle_div_avoids: "length (registers s) = 32 \<Longrightarrow> cycle_div w s \<noteq> Inl RegisterOutOfRange"
  unfolding cycle_div_def Let_def
  by (intro and_then_avoids)
     (simp_all add: int_address_avoids unsigned_address_avoids reg_ok reg_at_RS_later mem_set_registers
       )

lemma cycle_jr_avoids: "length (registers s) = 32 \<Longrightarrow> cycle_jr w s \<noteq> Inl RegisterOutOfRange"
  unfolding cycle_jr_def Let_def
  by (intro and_then_avoids)
     (simp_all add: int_address_avoids unsigned_address_avoids reg_ok reg_at_RS_later mem_set_registers
       )

lemma cycle_jalr_avoids: "length (registers s) = 32 \<Longrightarrow> cycle_jalr w s \<noteq> Inl RegisterOutOfRange"
  by (simp add: cycle_jalr_def reg_ok reg_at_RS_later)

lemma cycle_and_avoids: "length (registers s) = 32 \<Longrightarrow> cycle_and w s \<noteq> Inl RegisterOutOfRange"
  unfolding cycle_and_def Let_def
  by (intro and_then_avoids)
     (simp_all add: int_address_avoids unsigned_address_avoids reg_ok reg_at_RS_later mem_set_registers
       )

lemma cycle_or_avoids: "length (registers s) = 32 \<Longrightarrow> cycle_or w s \<noteq> Inl RegisterOutOfRange"
  unfolding cycle_or_def Let_def
  by (intro and_then_avoids)
     (simp_all add: int_address_avoids unsigned_address_avoids reg_ok reg_at_RS_later mem_set_registers
       )

lemma cycle_nor_avoids: "length (registers s) = 32 \<Longrightarrow> cycle_nor w s \<noteq> Inl RegisterOutOfRange"
  unfolding cycle_nor_def Let_def
  by (intro and_then_avoids)
     (simp_all add: int_address_avoids unsigned_address_avoids reg_ok reg_at_RS_later mem_set_registers
       )

lemma cycle_xor_avoids: "length (registers s) = 32 \<Longrightarrow> cycle_xor w s \<noteq> Inl RegisterOutOfRange"
  unfolding cycle_xor_def Let_def
  by (intro and_then_avoids)
     (simp_all add: int_address_avoids unsigned_address_avoids reg_ok reg_at_RS_later mem_set_registers
       )

lemma cycle_mtlo_avoids: "length (registers s) = 32 \<Longrightarrow> cycle_mtlo w s \<noteq> Inl RegisterOutOfRange"
  unfolding cycle_mtlo_def Let_def
  by (intro and_then_avoids)
     (simp_all add: int_address_avoids unsigned_address_avoids reg_ok reg_at_RS_later mem_set_registers
       )

lemma cycle_mthi_avoids: "length (registers s) = 32 \<Longrightarrow> cycle_mthi w s \<noteq> Inl RegisterOutOfRange"
  unfolding cycle_mthi_def Let_def
  by (intro and_then_avoids)
     (simp_all add: int_address_avoids unsigned_address_avoids reg_ok reg_at_RS_later mem_set_registers
       )

lemma cycle_mfhi_avoids: "length (registers s) = 32 \<Longrightarrow> cycle_mfhi w s \<noteq> Inl RegisterOutOfRange"
  unfolding cycle_mfhi_def Let_def
  by (intro and_then_avoids)
     (simp_all add: int_address_avoids unsigned_address_avoids reg_ok reg_at_RS_later mem_set_registers
       )

lemma cycle_mflo_avoids: "length (registers s) = 32 \<Longrightarrow> cycle_mflo w s \<noteq> Inl RegisterOutOfRange"
  unfolding cycle_mflo_def Let_def
  by (intro and_then_avoids)
     (simp_all add: int_address_avoids unsigned_address_avoids reg_ok reg_at_RS_later mem_set_registers
       )

lemmas function_avoids = cycle_sll_avoids cycle_srl_avoids cycle_sltu_avoids cycle_slt_avoids cycle_addu_avoids cycle_add_avoids cycle_multu_avoids cycle_mult_avoids cycle_divu_avoids cycle_div_avoids cycle_jr_avoids cycle_jalr_avoids cycle_and_avoids cycle_or_avoids cycle_nor_avoids cycle_xor_avoids cycle_mtlo_avoids cycle_mthi_avoids cycle_mfhi_avoids cycle_mflo_avoids cycle_syscall_avoids

lemmas opcode_avoids = cycle_j_avoids cycle_jal_avoids cycle_lb_avoids cycle_lbu_avoids cycle_lh_avoids cycle_lhu_avoids cycle_lw_avoids cycle_lui_avoids cycle_sb_avoids cycle_sh_avoids cycle_sw_avoids cycle_addi_avoids cycle_addiu_avoids cycle_blez_avoids cycle_bgtz_avoids cycle_beq_avoids cycle_bne_avoids cycle_xori_avoids

lemma cycle_function_avoids:
  "length (registers s) = 32 \<Longrightarrow> cycle_function w s \<noteq> Inl RegisterOutOfRange"
  unfolding cycle_function_def Let_def by (simp add: function_avoids)

lemma dispatch_avoids:
  "length (registers s) = 32 \<Longrightarrow> dispatch w s \<noteq> Inl RegisterOutOfRange"
  unfolding dispatch_def Let_def by (simp add: opcode_avoids cycle_function_avoids)

lemma fetch_avoids: "fetch s \<noteq> Inl RegisterOutOfRange"
  unfolding fetch_def by (intro and_then_avoids) simp_all

lemma cycle_avoids:
  "length (registers s) = 32 \<Longrightarrow> cycle s \<noteq> Inl RegisterOutOfRange"
  unfolding cycle_def by (intro and_then_avoids) (simp_all add: fetch_avoids dispatch_avoids)


section \<open>What single instructions compute\<close>

lemmas exec_defs = extract_eqs cycle_def fetch_def dispatch_def cycle_function_def and_then_def mem_at_def
  mem_set_def size_t_of_unsigned_def size_t_of_int_def reg_at_def reg_set_def advance_def
  branch_def short_of_def int_address_def unsigned_address_def int_add_def int_fits_def

lemma cycle_multu_result:
  assumes "reg_at s (extract w RS) = Inr a" and "reg_at s (extract w RT) = Inr b"
  shows "cycle_multu w s = Inr (advance (s\<lparr>hi := 0, lo := a * b\<rparr>))"
proof -
  have h: "ucast (drop_bit 32 ((ucast (a * b) :: u64) AND 0xFFFFFFFF00000000)) = (0 :: u32)"
    by (rule bit_word_eqI) (auto simp add: bit_simps dest: bit_imp_le_length)
  have m: "(0x00000000FFFFFFFF :: u64) = mask 32"
    by (simp add: mask_eq_exp_minus_1)
  have l: "ucast ((ucast (a * b) :: u64) AND 0x00000000FFFFFFFF) = a * b"
    unfolding m by (rule bit_word_eqI) (auto simp add: bit_simps)
  show ?thesis
    using assms h l by (simp add: cycle_multu_def Let_def)
qed

lemma cycle_lui_result:
  assumes "length (registers s) = 32"
  shows "cycle_lui w s = Inr (advance (s\<lparr>registers := (registers s)[unat (extract w RD) := 0]\<rparr>))"
proof -
  have "(ucast (push_bit 16 (extract w IMMD)) :: u16) = 0"
    by (rule bit_word_eqI) (simp add: bit_simps)
  then show ?thesis
    using assms by (simp add: cycle_lui_def Let_def reg_ok)
qed

lemma cycle_lhu_value:
  "(ucast (ucast (push_bit 8 (ucast b0 :: u32) OR ucast b1) :: u8) :: u32) = ucast (b1 :: u8)"
  by (rule bit_word_eqI) (auto simp add: bit_simps dest: bit_imp_le_length)

lemma cycle_bgtz_result:
  assumes "reg_at s (extract w RS) = Inr v"
  shows "cycle_bgtz w s = Inr (if v = 0 then advance s else branch w s)"
  using assms by (simp add: cycle_bgtz_def word_greater_zero_iff)

lemma dispatch_addi: "extract w OP = 0x08 \<Longrightarrow> dispatch w s = Inr s"
  by (simp add: dispatch_def cycle_addi_def)

lemma cycle_divu_zero:
  "reg_at s (extract w RS) = Inr a \<Longrightarrow> reg_at s (extract w RT) = Inr 0 \<Longrightarrow>
   cycle_divu w s = Inl UndefinedBehaviour"
  by (simp add: cycle_divu_def unsigned_rem_def)

lemma cycle_div_zero:
  "reg_at s (extract w RS) = Inr a \<Longrightarrow> reg_at s (extract w RT) = Inr 0 \<Longrightarrow>
   cycle_div w s = Inl UndefinedBehaviour"
  by (simp add: cycle_div_def int_rem_def)

lemma cycle_divu_nonzero:
  "reg_at s (extract w RS) = Inr a \<Longrightarrow> reg_at s (extract w RT) = Inr b \<Longrightarrow> b \<noteq> 0 \<Longrightarrow>
   cycle_divu w s = Inr (advance (s\<lparr>hi := a mod b, lo := a div b\<rparr>))"
  by (simp add: cycle_divu_def unsigned_rem_def unsigned_div_def)

lemma scast_product:
  assumes "int_fits (sint a * sint b)"
  shows "(scast (a * b :: u32) :: u64) = scast a * scast b"
proof -
  have "sint (a * b) = signed_take_bit 31 (sint a * sint b)"
    by (simp add: sint_word_ariths)
  also have "\<dots> = sint a * sint b"
    using assms by (simp add: int_fits_def signed_take_bit_int_eq_self)
  finally have eq: "sint (a * b) = sint a * sint b" .
  have "(scast (a * b) :: u64) = word_of_int (sint (a * b))"
    by (rule scast_eq)
  also have "\<dots> = word_of_int (sint a) * word_of_int (sint b)"
    unfolding eq by (rule of_int_mult)
  also have "\<dots> = scast a * scast b"
    by (simp only: scast_eq)
  finally show ?thesis .
qed

lemma cycle_mult_result:
  assumes "reg_at s (extract w RS) = Inr a" and "reg_at s (extract w RT) = Inr b"
  shows "cycle_mult w s =
     (if int_fits (sint a * sint b)
      then Inr (advance (s\<lparr>hi := ucast (drop_bit 32 (scast a * scast b :: u64)),
                           lo := ucast (scast a * scast b :: u64)\<rparr>))
      else Inl UndefinedBehaviour)"
proof (cases "int_fits (sint a * sint b)")
  case True
  let ?p = "scast a * scast b :: u64"
  have m: "(0x00000000FFFFFFFF :: u64) = mask 32"
    by (simp add: mask_eq_exp_minus_1)
  have h: "(ucast (drop_bit 32 (?p AND 0xFFFFFFFF00000000)) :: u32) = ucast (drop_bit 32 ?p)"
    by (rule bit_word_eqI) (auto simp add: bit_simps m)
  have l: "(ucast (?p AND 0x00000000FFFFFFFF) :: u32) = ucast ?p"
    unfolding m by (rule bit_word_eqI) (auto simp add: bit_simps)
  show ?thesis
    using assms True h l
    by (simp add: cycle_mult_def int_mul_def Let_def scast_product)
next
  case False
  with assms show ?thesis
    by (simp add: cycle_mult_def int_mul_def)
qed

lemma reg_set_zero_stores:
  "registers s \<noteq> [] \<Longrightarrow> reg_set s 0 v = Inr (s\<lparr>registers := (registers s)[0 := v]\<rparr>)"
  by (simp add: reg_set_def)

text \<open>
  Every instruction that is neither a jump nor a branch, \<^verbatim>\<open>addi\<close> apart, ends with
  \<^verbatim>\<open>this->ip += 4\<close>.
\<close>

lemma and_then_InrE:
  assumes "and_then m f = Inr r"
  obtains v where "m = Inr v" and "f v = Inr r"
  using assms by (cases m) simp_all

lemma reg_set_ip: "reg_set s i v = Inr s1 \<Longrightarrow> ip s1 = ip s"
  by (auto simp: reg_set_def split: if_splits)

lemma mem_set_ip: "mem_set s a v = Inr s1 \<Longrightarrow> ip s1 = ip s"
  by (auto simp: mem_set_def split: if_splits)

lemma cycle_lb_ip: "cycle_lb w s = Inr s' \<Longrightarrow> ip s' = ip s + 4"
  unfolding cycle_lb_def Let_def
  by (elim and_then_InrE) (auto simp: advance_def dest!: reg_set_ip mem_set_ip)

lemma cycle_lbu_ip: "cycle_lbu w s = Inr s' \<Longrightarrow> ip s' = ip s + 4"
  unfolding cycle_lbu_def Let_def
  by (elim and_then_InrE) (auto simp: advance_def dest!: reg_set_ip mem_set_ip)

lemma cycle_lh_ip: "cycle_lh w s = Inr s' \<Longrightarrow> ip s' = ip s + 4"
  unfolding cycle_lh_def Let_def
  by (elim and_then_InrE) (auto simp: advance_def dest!: reg_set_ip mem_set_ip)

lemma cycle_lhu_ip: "cycle_lhu w s = Inr s' \<Longrightarrow> ip s' = ip s + 4"
  unfolding cycle_lhu_def Let_def
  by (elim and_then_InrE) (auto simp: advance_def dest!: reg_set_ip mem_set_ip)

lemma cycle_lw_ip: "cycle_lw w s = Inr s' \<Longrightarrow> ip s' = ip s + 4"
  unfolding cycle_lw_def Let_def
  by (elim and_then_InrE) (auto simp: advance_def dest!: reg_set_ip mem_set_ip)

lemma cycle_lui_ip: "cycle_lui w s = Inr s' \<Longrightarrow> ip s' = ip s + 4"
  unfolding cycle_lui_def Let_def
  by (elim and_then_InrE) (auto simp: advance_def dest!: reg_set_ip mem_set_ip)

lemma cycle_sb_ip: "cycle_sb w s = Inr s' \<Longrightarrow> ip s' = ip s + 4"
  unfolding cycle_sb_def Let_def
  by (elim and_then_InrE) (auto simp: advance_def dest!: reg_set_ip mem_set_ip)

lemma cycle_sh_ip: "cycle_sh w s = Inr s' \<Longrightarrow> ip s' = ip s + 4"
  unfolding cycle_sh_def Let_def
  by (elim and_then_InrE) (auto simp: advance_def dest!: reg_set_ip mem_set_ip)

lemma cycle_sw_ip: "cycle_sw w s = Inr s' \<Longrightarrow> ip s' = ip s + 4"
  unfolding cycle_sw_def Let_def
  by (elim and_then_InrE) (auto simp: advance_def dest!: reg_set_ip mem_set_ip)

lemma cycle_addiu_ip: "cycle_addiu w s = Inr s' \<Longrightarrow> ip s' = ip s + 4"
  unfolding cycle_addiu_def Let_def
  by (elim and_then_InrE) (auto simp: advance_def dest!: reg_set_ip mem_set_ip)

lemma cycle_xori_ip: "cycle_xori w s = Inr s' \<Longrightarrow> ip s' = ip s + 4"
  unfolding cycle_xori_def Let_def
  by (elim and_then_InrE) (auto simp: advance_def dest!: reg_set_ip mem_set_ip)

lemma cycle_sll_ip: "cycle_sll w s = Inr s' \<Longrightarrow> ip s' = ip s + 4"
  unfolding cycle_sll_def Let_def
  by (elim and_then_InrE) (auto simp: advance_def dest!: reg_set_ip mem_set_ip)

lemma cycle_srl_ip: "cycle_srl w s = Inr s' \<Longrightarrow> ip s' = ip s + 4"
  unfolding cycle_srl_def Let_def
  by (elim and_then_InrE) (auto simp: advance_def dest!: reg_set_ip mem_set_ip)

lemma cycle_sltu_ip: "cycle_sltu w s = Inr s' \<Longrightarrow> ip s' = ip s + 4"
  unfolding cycle_sltu_def Let_def
  by (elim and_then_InrE) (auto simp: advance_def dest!: reg_set_ip mem_set_ip)

lemma cycle_slt_ip: "cycle_slt w s = Inr s' \<Longrightarrow> ip s' = ip s + 4"
  unfolding cycle_slt_def Let_def
  by (elim and_then_InrE) (auto simp: advance_def dest!: reg_set_ip mem_set_ip)

lemma cycle_addu_ip: "cycle_addu w s = Inr s' \<Longrightarrow> ip s' = ip s + 4"
  unfolding cycle_addu_def Let_def
  by (elim and_then_InrE) (auto simp: advance_def dest!: reg_set_ip mem_set_ip)

lemma cycle_add_ip: "cycle_add w s = Inr s' \<Longrightarrow> ip s' = ip s + 4"
  unfolding cycle_add_def Let_def
  by (elim and_then_InrE) (auto simp: advance_def dest!: reg_set_ip mem_set_ip)

lemma cycle_multu_ip: "cycle_multu w s = Inr s' \<Longrightarrow> ip s' = ip s + 4"
  unfolding cycle_multu_def Let_def
  by (elim and_then_InrE) (auto simp: advance_def dest!: reg_set_ip mem_set_ip)

lemma cycle_mult_ip: "cycle_mult w s = Inr s' \<Longrightarrow> ip s' = ip s + 4"
  unfolding cycle_mult_def Let_def
  by (elim and_then_InrE) (auto simp: advance_def dest!: reg_set_ip mem_set_ip)

lemma cycle_divu_ip: "cycle_divu w s = Inr s' \<Longrightarrow> ip s' = ip s + 4"
  unfolding cycle_divu_def Let_def
  by (elim and_then_InrE) (auto simp: advance_def dest!: reg_set_ip mem_set_ip)

lemma cycle_div_ip: "cycle_div w s = Inr s' \<Longrightarrow> ip s' = ip s + 4"
  unfolding cycle_div_def Let_def
  by (elim and_then_InrE) (auto simp: advance_def dest!: reg_set_ip mem_set_ip)

lemma cycle_and_ip: "cycle_and w s = Inr s' \<Longrightarrow> ip s' = ip s + 4"
  unfolding cycle_and_def Let_def
  by (elim and_then_InrE) (auto simp: advance_def dest!: reg_set_ip mem_set_ip)

lemma cycle_or_ip: "cycle_or w s = Inr s' \<Longrightarrow> ip s' = ip s + 4"
  unfolding cycle_or_def Let_def
  by (elim and_then_InrE) (auto simp: advance_def dest!: reg_set_ip mem_set_ip)

lemma cycle_nor_ip: "cycle_nor w s = Inr s' \<Longrightarrow> ip s' = ip s + 4"
  unfolding cycle_nor_def Let_def
  by (elim and_then_InrE) (auto simp: advance_def dest!: reg_set_ip mem_set_ip)

lemma cycle_xor_ip: "cycle_xor w s = Inr s' \<Longrightarrow> ip s' = ip s + 4"
  unfolding cycle_xor_def Let_def
  by (elim and_then_InrE) (auto simp: advance_def dest!: reg_set_ip mem_set_ip)

lemma cycle_mtlo_ip: "cycle_mtlo w s = Inr s' \<Longrightarrow> ip s' = ip s + 4"
  unfolding cycle_mtlo_def Let_def
  by (elim and_then_InrE) (auto simp: advance_def dest!: reg_set_ip mem_set_ip)

lemma cycle_mthi_ip: "cycle_mthi w s = Inr s' \<Longrightarrow> ip s' = ip s + 4"
  unfolding cycle_mthi_def Let_def
  by (elim and_then_InrE) (auto simp: advance_def dest!: reg_set_ip mem_set_ip)

lemma cycle_mfhi_ip: "cycle_mfhi w s = Inr s' \<Longrightarrow> ip s' = ip s + 4"
  unfolding cycle_mfhi_def Let_def
  by (elim and_then_InrE) (auto simp: advance_def dest!: reg_set_ip mem_set_ip)

lemma cycle_mflo_ip: "cycle_mflo w s = Inr s' \<Longrightarrow> ip s' = ip s + 4"
  unfolding cycle_mflo_def Let_def
  by (elim and_then_InrE) (auto simp: advance_def dest!: reg_set_ip mem_set_ip)

lemma cycle_syscall_ip: "cycle_syscall w s = Inr s' \<Longrightarrow> ip s' = ip s + 4"
  by (auto simp: cycle_syscall_def advance_def)

lemmas function_ip = cycle_sll_ip cycle_srl_ip cycle_sltu_ip cycle_slt_ip cycle_addu_ip cycle_add_ip cycle_multu_ip cycle_mult_ip cycle_divu_ip cycle_div_ip cycle_and_ip cycle_or_ip cycle_nor_ip cycle_xor_ip cycle_mtlo_ip cycle_mthi_ip cycle_mfhi_ip cycle_mflo_ip cycle_syscall_ip

lemmas opcode_ip = cycle_lb_ip cycle_lbu_ip cycle_lh_ip cycle_lhu_ip cycle_lw_ip cycle_lui_ip cycle_sb_ip cycle_sh_ip cycle_sw_ip cycle_addiu_ip cycle_xori_ip

lemma cycle_function_ip:
  assumes "cycle_function w s = Inr s'" and "extract w FN \<noteq> 0x08" and "extract w FN \<noteq> 0x09"
  shows "ip s' = ip s + 4"
  using assms unfolding cycle_function_def Let_def
  by (auto split: if_splits dest: function_ip)

lemma dispatch_ip:
  assumes "dispatch w s = Inr s'"
    and "extract w OP \<notin> {0x02, 0x03, 0x04, 0x05, 0x06, 0x07, 0x08}"
    and "extract w OP = 0 \<Longrightarrow> extract w FN \<noteq> 0x08 \<and> extract w FN \<noteq> 0x09"
  shows "ip s' = ip s + 4"
  using assms unfolding dispatch_def Let_def
  by (auto split: if_splits dest: opcode_ip cycle_function_ip)

lemma fetch_j_state: "fetch j_state = Inr 0x08000010"
  by (simp add: j_state_def exec_defs)

lemma fetch_jal_state: "fetch jal_state = Inr 0x0C000010"
  by (simp add: jal_state_def exec_defs)

lemma length_jalr_state: "length (registers jalr_state) = 32"
  by (simp add: jalr_state_def)

section \<open>The claims\<close>

text \<open>
  C1. \<^verbatim>\<open>mult\<close> and \<^verbatim>\<open>multu\<close> are to leave in \<open>hi\<close> and \<open>lo\<close> the upper and lower 32
  bits of the exact 64-bit product; for \<open>0xFFFFFFFF\<close> times \<open>0xFFFFFFFF\<close>, \<^verbatim>\<open>multu\<close> is to
  give \<open>hi = 0xFFFFFFFE\<close> and \<open>lo = 1\<close>. The code multiplies in 32 bits and widens
  afterwards: on that input one cycle of \<^verbatim>\<open>multu $1, $2\<close> ends with \<open>hi = 0\<close> and
  \<open>lo = 1\<close>. By \<open>cycle_multu_result\<close> \<^verbatim>\<open>multu\<close> always ends with \<open>hi = 0\<close>; by
  \<open>cycle_mult_result\<close> \<^verbatim>\<open>mult\<close> gives the exact product when it fits 32 bits and is
  undefined otherwise.
\<close>

theorem multu_drops_upper_half:
  "cycle multu_state = Inr (multu_state\<lparr>hi := 0, lo := 1, ip := 4\<rparr>)"
  by (simp add: multu_state_def exec_defs cycle_multu_def)

text \<open>
  C2. Every instruction the dispatcher recognizes is to update \<open>ip\<close> exactly once, to the
  target of a taken transfer or else to \<open>ip + 4\<close>; \<^verbatim>\<open>addi\<close> is named among those that
  advance by 4. The \<^verbatim>\<open>case\<close> of \<^verbatim>\<open>addi\<close> is empty: one cycle on \<^verbatim>\<open>addi $8, $0, 5\<close> at
  address 0 returns the machine unchanged, with \<open>ip\<close> still 0. By \<open>dispatch_addi\<close> so
  does every word with opcode 8; by \<open>dispatch_ip\<close> every other instruction that is not
  a jump or a branch advances \<open>ip\<close> by 4.
\<close>

theorem addi_leaves_ip:
  "cycle addi_state = Inr addi_state \<and> ip addi_state = 0"
  by (simp add: addi_state_def exec_defs cycle_addi_def)

text \<open>
  C3. \<^verbatim>\<open>lui\<close> is to set the register selected by bits 20 to 16 to the immediate shifted
  left by 16, and to advance \<open>ip\<close> by 4. The code narrows the shifted value to
  \<^verbatim>\<open>unsigned short\<close> and stores it into the register selected by bits 15 to 11: one cycle
  on \<^verbatim>\<open>lui $8, 0x1234\<close> overwrites register 2 with zero and leaves register 8 zero (by
  \<open>cycle_lui_result\<close> the value written is zero for every immediate).
\<close>

theorem lui_writes_zero_to_rd:
  "cycle lui_state = Inr (lui_state\<lparr>registers := (replicate 32 0)[2 := 0], ip := 4\<rparr>)"
  by (simp add: lui_state_def exec_defs cycle_lui_def)

text \<open>
  C4. Every load and store is to address memory at the register plus the sign-extended
  immediate, with 32-bit wrap-around, \<^verbatim>\<open>lbu\<close> and \<^verbatim>\<open>lhu\<close> included. \<^verbatim>\<open>lbu\<close> and \<^verbatim>\<open>lhu\<close> add
  the immediate without the cast to \<^verbatim>\<open>short\<close>: for \<^verbatim>\<open>lbu $8, -1($1)\<close> with register 1
  holding 1 the address is \<open>0x10000\<close>, not 0, and the cycle ends with
  \<^verbatim>\<open>std::out_of_range\<close> in a memory of four bytes. The address the other loads and
  stores form from the same fields is 0.
\<close>

theorem lbu_zero_extends_immediate:
  "fetch lbu_state = Inr 0x9028FFFF
   \<and> unsigned_address 0x9028FFFF lbu_state = Inr 0x10000
   \<and> int_address 0x9028FFFF lbu_state = Inr 0
   \<and> cycle lbu_state = Inl MemoryOutOfRange"
  by (simp add: lbu_state_def exec_defs cycle_lbu_def)

text \<open>
  C5. \<^verbatim>\<open>lhu\<close> is to load the zero-extended big-endian halfword, high byte included. The
  code narrows the halfword to \<^verbatim>\<open>unsigned char\<close>: with the bytes \<open>0x12 0x34\<close> at
  address 4, one cycle on \<^verbatim>\<open>lhu $8, 4($0)\<close> leaves \<open>0x34\<close> in register 8, not \<open>0x1234\<close>
  (by \<open>cycle_lhu_value\<close> the value is always the second byte alone).
\<close>

theorem lhu_keeps_low_byte_only:
  "cycle lhu_state = Inr (lhu_state\<lparr>registers := (replicate 32 0)[8 := 0x34], ip := 4\<rparr>)"
  by (simp add: lhu_state_def exec_defs cycle_lhu_def)

text \<open>
  C6. \<^verbatim>\<open>bgtz\<close> is to branch exactly when the register, read as a signed 32-bit value, is
  greater than zero, and not when its sign bit is set. The code compares an
  \<^verbatim>\<open>unsigned\<close>: with register 1 holding \<open>0x80000000\<close> one cycle on \<^verbatim>\<open>bgtz $1, 2\<close> at
  address 0 takes the branch to \<open>0 + 4 + 8 = 12\<close> (by \<open>cycle_bgtz_result\<close> the branch is
  taken for every value other than zero).
\<close>

theorem bgtz_taken_on_negative:
  "cycle bgtz_state = Inr (bgtz_state\<lparr>ip := 12\<rparr>)"
  by (simp add: bgtz_state_def exec_defs cycle_bgtz_def)

text \<open>
  C7. Register 0 is to read as zero after every instruction: a write whose destination
  field is 0 is discarded. No write in the code looks at the index (\<open>reg_set_zero_stores\<close>):
  one cycle on \<^verbatim>\<open>addiu $0, $0, 5\<close> from the initial registers leaves 5 in register 0.
\<close>

theorem addiu_writes_register_zero:
  "cycle addiu_state = Inr (addiu_state\<lparr>registers := (replicate 32 0)[0 := 5], ip := 4\<rparr>)"
  by (simp add: addiu_state_def exec_defs cycle_addiu_def)

text \<open>
  C8. \<^verbatim>\<open>div\<close> and \<^verbatim>\<open>divu\<close> are to complete the cycle and advance \<open>ip\<close> by 4 in every
  state, also when the divisor register is zero. The code evaluates \<^verbatim>\<open>rs % rt\<close> and
  \<^verbatim>\<open>rs / rt\<close> with no test of \<^verbatim>\<open>rt\<close>: with register 2 zero, one cycle on
  \<^verbatim>\<open>div $1, $2\<close> or on \<^verbatim>\<open>divu $1, $2\<close> is undefined behaviour and returns no state (by
  \<open>cycle_div_zero\<close> and \<open>cycle_divu_zero\<close> for every dividend).
\<close>

theorem div_by_zero_undefined:
  "cycle div_state = Inl UndefinedBehaviour \<and> cycle divu_state = Inl UndefinedBehaviour"
  by (simp add: div_state_def divu_state_def exec_defs cycle_div_def cycle_divu_def
      int_rem_def unsigned_rem_def)

text \<open>
  C9. When the word fetched at \<open>ip s\<close> has opcode 2 (\<^verbatim>\<open>j\<close>), one cycle changes only
  \<open>ip\<close>, to the upper four bits of the \<open>ip\<close> of the jump itself joined with the 26-bit
  target shifted left by 2. When it has opcode 3 (\<^verbatim>\<open>jal\<close>), one cycle stores \<open>ip s + 4\<close>
  in register 31 and sets \<open>ip\<close> in the same way. Memory must hold the instruction for
  it to be fetched, and the register array has its 32 entries.
\<close>

theorem jump_target:
  assumes "fetch s = Inr w"
  shows "(extract w OP = 0x02 \<longrightarrow>
            cycle s = Inr (s\<lparr>ip := (ip s AND 0xF0000000) OR push_bit 2 (w AND 0x03FFFFFF)\<rparr>))
       \<and> (extract w OP = 0x03 \<longrightarrow> length (registers s) = 32 \<longrightarrow>
            cycle s = Inr (s\<lparr>registers := (registers s)[31 := ip s + 4],
                              ip := (ip s AND 0xF0000000) OR push_bit 2 (w AND 0x03FFFFFF)\<rparr>))"
proof (intro conjI impI)
  assume "extract w OP = 0x02"
  then have "dispatch w s = cycle_j w s"
    by (simp add: dispatch_def)
  with assms show "cycle s = Inr (s\<lparr>ip := (ip s AND 0xF0000000) OR push_bit 2 (w AND 0x03FFFFFF)\<rparr>)"
    by (simp add: cycle_def cycle_j_def extract_eqs)
next
  assume "extract w OP = 0x03" and len: "length (registers s) = 32"
  then have "dispatch w s = cycle_jal w s"
    by (simp add: dispatch_def)
  with assms len
  show "cycle s = Inr (s\<lparr>registers := (registers s)[31 := ip s + 4],
                          ip := (ip s AND 0xF0000000) OR push_bit 2 (w AND 0x03FFFFFF)\<rparr>)"
    by (simp add: cycle_def cycle_jal_def reg_ok extract_eqs)
qed

theorem jump_target_witness:
  "fetch j_state = Inr 0x08000010 \<and> extract 0x08000010 OP = 0x02
   \<and> cycle j_state = Inr (j_state\<lparr>ip := 0x40\<rparr>)
   \<and> fetch jal_state = Inr 0x0C000010 \<and> extract 0x0C000010 OP = 0x03
   \<and> length (registers jal_state) = 32
   \<and> cycle jal_state = Inr (jal_state\<lparr>registers := (replicate 32 0)[31 := 8], ip := 0x40\<rparr>)"
  using jump_target [OF fetch_j_state] jump_target [OF fetch_jal_state]
    fetch_j_state fetch_jal_state
  by (simp add: j_state_def jal_state_def extract_eqs)

text \<open>
  C10. For every instruction word the fields \<^verbatim>\<open>RS\<close>, \<^verbatim>\<open>RT\<close> and \<^verbatim>\<open>RD\<close> are less than 32,
  and with the 32 entries of the register array no \<^verbatim>\<open>registers.at\<close> of a cycle is out
  of range, whatever word is dispatched and whatever word memory holds at \<open>ip\<close>.
\<close>

theorem register_access_in_bounds:
  assumes "length (registers s) = 32"
  shows "unat (extract w RS) < 32 \<and> unat (extract w RT) < 32 \<and> unat (extract w RD) < 32
       \<and> dispatch w s \<noteq> Inl RegisterOutOfRange \<and> cycle s \<noteq> Inl RegisterOutOfRange"
  using assms unat_extract_RS [of w] unat_extract_RT [of w] unat_extract_RD [of w]
    dispatch_avoids [of s w] cycle_avoids [of s]
  by (simp)

theorem register_access_in_bounds_witness:
  "length (registers jalr_state) = 32
   \<and> unat (extract 0x03FFF809 RS) = 31 \<and> unat (extract 0x03FFF809 RT) = 31
   \<and> unat (extract 0x03FFF809 RD) = 31
   \<and> dispatch 0x03FFF809 jalr_state \<noteq> Inl RegisterOutOfRange
   \<and> cycle jalr_state = Inr (jalr_state\<lparr>registers := (replicate 32 0)[31 := 4], ip := 4\<rparr>)"
  using register_access_in_bounds [OF length_jalr_state, where w = "0x03FFF809"]
  by (simp add: jalr_state_def exec_defs cycle_jalr_def)

end
